theory Spec2Isabelle
  imports Complex_Main "HOL-Library.Char_ord" "HOL-Library.List_Lexorder"
    "HOL-Library.Product_Lexorder" "HOL-Library.Multiset"
begin

section \<open>Control financiero de proyectos: KPIs, risk flag and portfolio summary\<close>

text \<open>
  A shallow embedding of \<^verbatim>\<open>src/data/app/utils.py\<close>: \<^verbatim>\<open>compute_kpis\<close>,
  \<^verbatim>\<open>flag_risk\<close> and \<^verbatim>\<open>summary_table\<close>.

  Numbers. A Python float is a finite binary fraction, an infinity or NaN. The model keeps
  the three special values and represents every finite float by the rational it denotes;
  arithmetic on finite values is exact (rounding and overflow are not modelled), arithmetic
  on the special values follows IEEE 754, and Python's \<^verbatim>\<open>/\<close> raises
  \<^verbatim>\<open>ZeroDivisionError\<close> on a zero divisor.
\<close>

subsection \<open>Errors\<close>

text \<open>
  The exceptions of the embedded functions. \<open>EmptySeriesError\<close> is the name the
  specification uses; no statement of the source raises it.
\<close>

datatype error = IndexError | KeyError | ZeroDivisionError | EmptySeriesError

definition bind_err :: "error + 'a \<Rightarrow> ('a \<Rightarrow> error + 'b) \<Rightarrow> error + 'b" where
  "bind_err m f = (case m of Inl e \<Rightarrow> Inl e | Inr v \<Rightarrow> f v)"

subsection \<open>Floats\<close>

datatype pyfloat = Fin rat | PInf | NInf | NaN

definition isfinite :: "pyfloat \<Rightarrow> bool" where
  "isfinite x = (case x of Fin _ \<Rightarrow> True | _ \<Rightarrow> False)"

definition isnan :: "pyfloat \<Rightarrow> bool" where
  "isnan x = (case x of NaN \<Rightarrow> True | _ \<Rightarrow> False)"

text \<open>The value of a finite float; only read under an \<open>isfinite\<close> guard.\<close>

definition fin_val :: "pyfloat \<Rightarrow> rat" where
  "fin_val x = (case x of Fin r \<Rightarrow> r | _ \<Rightarrow> 0)"

text \<open>\<^verbatim>\<open>bool(x)\<close>: only zero is falsy; NaN and the infinities are truthy.\<close>

definition truthy :: "pyfloat \<Rightarrow> bool" where
  "truthy x = (x \<noteq> Fin 0)"

definition fneg :: "pyfloat \<Rightarrow> pyfloat" where
  "fneg x = (case x of Fin r \<Rightarrow> Fin (- r) | PInf \<Rightarrow> NInf | NInf \<Rightarrow> PInf | NaN \<Rightarrow> NaN)"

fun fadd :: "pyfloat \<Rightarrow> pyfloat \<Rightarrow> pyfloat" where
  "fadd NaN _ = NaN"
| "fadd _ NaN = NaN"
| "fadd (Fin a) (Fin b) = Fin (a + b)"
| "fadd PInf NInf = NaN"
| "fadd NInf PInf = NaN"
| "fadd PInf _ = PInf"
| "fadd NInf _ = NInf"
| "fadd (Fin _) PInf = PInf"
| "fadd (Fin _) NInf = NInf"

definition fsub :: "pyfloat \<Rightarrow> pyfloat \<Rightarrow> pyfloat" where
  "fsub x y = fadd x (fneg y)"

text \<open>The infinity with the sign of \<open>s\<close> (\<open>s \<noteq> 0\<close> where it is used).\<close>

definition signed_inf :: "rat \<Rightarrow> pyfloat" where
  "signed_inf s = (if 0 < s then PInf else NInf)"

fun fmul :: "pyfloat \<Rightarrow> pyfloat \<Rightarrow> pyfloat" where
  "fmul NaN _ = NaN"
| "fmul _ NaN = NaN"
| "fmul (Fin a) (Fin b) = Fin (a * b)"
| "fmul (Fin a) PInf = (if a = 0 then NaN else signed_inf a)"
| "fmul (Fin a) NInf = (if a = 0 then NaN else signed_inf (- a))"
| "fmul PInf (Fin b) = (if b = 0 then NaN else signed_inf b)"
| "fmul NInf (Fin b) = (if b = 0 then NaN else signed_inf (- b))"
| "fmul PInf PInf = PInf"
| "fmul PInf NInf = NInf"
| "fmul NInf PInf = NInf"
| "fmul NInf NInf = PInf"

text \<open>Python's true division of floats: a zero divisor raises.\<close>

fun fdiv :: "pyfloat \<Rightarrow> pyfloat \<Rightarrow> error + pyfloat" where
  "fdiv x (Fin b) =
     (if b = 0 then Inl ZeroDivisionError
      else Inr (case x of Fin a \<Rightarrow> Fin (a / b) | PInf \<Rightarrow> signed_inf b
                | NInf \<Rightarrow> signed_inf (- b) | NaN \<Rightarrow> NaN))"
| "fdiv x NaN = Inr NaN"
| "fdiv x PInf = Inr (case x of Fin _ \<Rightarrow> Fin 0 | _ \<Rightarrow> NaN)"
| "fdiv x NInf = Inr (case x of Fin _ \<Rightarrow> Fin 0 | _ \<Rightarrow> NaN)"

definition fabs :: "pyfloat \<Rightarrow> pyfloat" where
  "fabs x = (case x of Fin r \<Rightarrow> Fin \<bar>r\<bar> | PInf \<Rightarrow> PInf | NInf \<Rightarrow> PInf | NaN \<Rightarrow> NaN)"

text \<open>Comparisons: every comparison with NaN is false.\<close>

fun fgt :: "pyfloat \<Rightarrow> pyfloat \<Rightarrow> bool" where
  "fgt NaN _ = False"
| "fgt _ NaN = False"
| "fgt (Fin a) (Fin b) = (b < a)"
| "fgt PInf PInf = False"
| "fgt PInf _ = True"
| "fgt NInf _ = False"
| "fgt (Fin _) PInf = False"
| "fgt (Fin _) NInf = True"

definition fge :: "pyfloat \<Rightarrow> pyfloat \<Rightarrow> bool" where
  "fge x y = (\<not> isnan x \<and> \<not> isnan y \<and> (x = y \<or> fgt x y))"

text \<open>\<^verbatim>\<open>np.clip(v, lo, hi)\<close> = \<^verbatim>\<open>minimum(maximum(v, lo), hi)\<close>, which propagates NaN.\<close>

definition clip :: "pyfloat \<Rightarrow> rat \<Rightarrow> rat \<Rightarrow> pyfloat" where
  "clip v lo hi = (case v of Fin r \<Rightarrow> Fin (min (max r lo) hi) | PInf \<Rightarrow> Fin hi
                   | NInf \<Rightarrow> Fin (min lo hi) | NaN \<Rightarrow> NaN)"

subsection \<open>The data frame\<close>

text \<open>
  A data frame is the list of its rows, in index order; the columns are the ones
  \<^verbatim>\<open>load_data\<close> reads. A date is a calendar day number, or \<open>None\<close> for pandas'
  \<^verbatim>\<open>NaT\<close> (an empty cell); \<^verbatim>\<open>pd.to_numeric(errors="coerce")\<close> turns a malformed
  number into NaN.
\<close>

type_synonym timestamp = "int option"

record row =
  project_id :: string
  project_name :: string
  budget :: pyfloat
  start_date :: timestamp
  end_date :: timestamp
  date :: timestamp
  cumulative_spend :: pyfloat

type_synonym dataframe = "row list"

text \<open>\<^verbatim>\<open>Series.iloc[0]\<close>.\<close>

definition iloc0 :: "'a list \<Rightarrow> error + 'a" where
  "iloc0 xs = (case xs of [] \<Rightarrow> Inl IndexError | x # _ \<Rightarrow> Inr x)"

text \<open>\<^verbatim>\<open>Series.min()\<close> and \<^verbatim>\<open>Series.max()\<close> skip NaT and give NaT when nothing is left.\<close>

definition present :: "timestamp list \<Rightarrow> int list" where
  "present ts = concat (map (\<lambda>t. case t of None \<Rightarrow> [] | Some d \<Rightarrow> [d]) ts)"

definition series_min :: "timestamp list \<Rightarrow> timestamp" where
  "series_min ts = (case present ts of [] \<Rightarrow> None | d # ds \<Rightarrow> Some (fold min ds d))"

definition series_max :: "timestamp list \<Rightarrow> timestamp" where
  "series_max ts = (case present ts of [] \<Rightarrow> None | d # ds \<Rightarrow> Some (fold max ds d))"

text \<open>
  \<^verbatim>\<open>df.sort_values("date")\<close>: the rows with a date in ascending order, then the NaT rows
  in index order. Rows with equal dates are kept in index order, as a stable sort leaves them
  (numpy's default kind gives no guarantee for them).
\<close>

definition sort_values_date :: "dataframe \<Rightarrow> dataframe" where
  "sort_values_date df =
     sort_key (\<lambda>r. the (date r)) (filter (\<lambda>r. date r \<noteq> None) df) @ filter (\<lambda>r. date r = None) df"

text \<open>
  \<^verbatim>\<open>(a - b).days\<close>: the difference in days, or \<open>None\<close> (NaN) when either side is NaT.
\<close>

definition delta_days :: "timestamp \<Rightarrow> timestamp \<Rightarrow> int option" where
  "delta_days a b = (case (a, b) of (Some x, Some y) \<Rightarrow> Some (x - y) | _ \<Rightarrow> None)"

text \<open>\<^verbatim>\<open>d if d > 0 else 1\<close>; \<^verbatim>\<open>nan > 0\<close> is false.\<close>

definition positive_or_one :: "int option \<Rightarrow> int" where
  "positive_or_one d = (case d of Some n \<Rightarrow> if n > 0 then n else 1 | None \<Rightarrow> 1)"

definition days_float :: "int option \<Rightarrow> pyfloat" where
  "days_float d = (case d of Some n \<Rightarrow> Fin (of_int n) | None \<Rightarrow> NaN)"

subsection \<open>The linear fit\<close>

text \<open>
  \<^verbatim>\<open>np.polyfit(x, y, 1)\<close> on finite data. When the abscissae are not all equal the
  least-squares line is unique and is what numpy returns: \<open>Some (slope, intercept)\<close>. When
  they are all equal the system is rank deficient and the outcome belongs to numpy's
  \<^verbatim>\<open>lstsq\<close>: it is the parameter \<open>dg\<close>, where \<open>None\<close> stands for a raised exception.
\<close>

type_synonym degenerate_fit = "rat list \<Rightarrow> rat list \<Rightarrow> (pyfloat \<times> pyfloat) option"

definition fit_det :: "rat list \<Rightarrow> rat" where
  "fit_det xs = of_nat (length xs) * sum_list (map (\<lambda>x. x * x) xs) - sum_list xs * sum_list xs"

definition fit_slope :: "rat list \<Rightarrow> rat list \<Rightarrow> rat" where
  "fit_slope xs ys =
     (of_nat (length xs) * sum_list (map2 (*) xs ys) - sum_list xs * sum_list ys) / fit_det xs"

definition fit_intercept :: "rat list \<Rightarrow> rat list \<Rightarrow> rat" where
  "fit_intercept xs ys = (sum_list ys - fit_slope xs ys * sum_list xs) / of_nat (length xs)"

definition polyfit :: "degenerate_fit \<Rightarrow> rat list \<Rightarrow> rat list \<Rightarrow> (pyfloat \<times> pyfloat) option" where
  "polyfit dg xs ys =
     (if fit_det xs \<noteq> 0 then Some (Fin (fit_slope xs ys), Fin (fit_intercept xs ys))
      else dg xs ys)"

text \<open>
  Two instances of the parameter: the fit raises (and the caller's \<^verbatim>\<open>except\<close> takes
  over), or it returns the minimum-norm solution of the column-scaled system, which for
  abscissae all equal to \<open>a \<noteq> 0\<close> is slope \<open>mean y / (2 a)\<close> and intercept \<open>mean y / 2\<close>.
\<close>

definition fit_raises :: degenerate_fit where
  "fit_raises xs ys = None"

definition fit_min_norm :: degenerate_fit where
  "fit_min_norm xs ys =
     (case xs of [] \<Rightarrow> None
      | a # _ \<Rightarrow> if a = 0 then None
                 else Some (Fin (sum_list ys / of_nat (length ys) / (2 * a)),
                            Fin (sum_list ys / of_nat (length ys) / 2)))"

subsection \<open>compute_kpis\<close>

record kpis =
  kpi_budget :: pyfloat
  latest_spend :: pyfloat
  pct_execution :: pyfloat
  variance_pct :: pyfloat
  burn_rate :: pyfloat
  days_elapsed :: int
  days_total :: int
  forecast_to_complete :: pyfloat
  risk_score :: pyfloat
  latest_date :: timestamp

text \<open>\<^verbatim>\<open>latest_spend / budget if budget else 0\<close>\<close>

definition pct_execution_of :: "pyfloat \<Rightarrow> pyfloat \<Rightarrow> error + pyfloat" where
  "pct_execution_of spend b = (if truthy b then fdiv spend b else Inr (Fin 0))"

text \<open>\<^verbatim>\<open>(latest_spend - budget) / budget if budget else 0\<close>\<close>

definition variance_pct_of :: "pyfloat \<Rightarrow> pyfloat \<Rightarrow> error + pyfloat" where
  "variance_pct_of spend b = (if truthy b then fdiv (fsub spend b) b else Inr (Fin 0))"

text \<open>\<^verbatim>\<open>latest_spend / days_elapsed if days_elapsed else 0\<close>\<close>

definition burn_rate_of :: "pyfloat \<Rightarrow> int \<Rightarrow> error + pyfloat" where
  "burn_rate_of spend de = (if de \<noteq> 0 then fdiv spend (Fin (of_int de)) else Inr (Fin 0))"

text \<open>\<^verbatim>\<open>latest_spend * (days_total / days_elapsed)\<close>\<close>

definition fallback_forecast :: "pyfloat \<Rightarrow> int \<Rightarrow> int \<Rightarrow> error + pyfloat" where
  "fallback_forecast spend dt de =
     bind_err (fdiv (Fin (of_int dt)) (Fin (of_int de))) (\<lambda>q. Inr (fmul spend q))"

text \<open>
  The \<^verbatim>\<open>try\<close> block. An exception of the fit is caught and the \<^verbatim>\<open>except\<close> branch
  evaluates the fallback; the fallback's own exception, raised in either branch, is not caught.
\<close>

definition forecast_of :: "degenerate_fit \<Rightarrow> dataframe \<Rightarrow> timestamp \<Rightarrow> pyfloat \<Rightarrow> int \<Rightarrow> int
    \<Rightarrow> error + pyfloat" where
  "forecast_of dg df start spend dt de =
     (let x = map (\<lambda>r. days_float (delta_days (date r) start)) df;
          y = map cumulative_spend df
      in if length x \<ge> 2 \<and> list_all isfinite x \<and> list_all isfinite y
         then (case polyfit dg (map fin_val x) (map fin_val y) of
                 Some (slope, intercept) \<Rightarrow> Inr (fadd (fmul slope (Fin (of_int dt))) intercept)
               | None \<Rightarrow> fallback_forecast spend dt de)
         else fallback_forecast spend dt de)"

text \<open>\<^verbatim>\<open>(forecast_to_complete - budget) / budget if budget else 0\<close>\<close>

definition overload_of :: "pyfloat \<Rightarrow> pyfloat \<Rightarrow> error + pyfloat" where
  "overload_of forecast b = (if truthy b then fdiv (fsub forecast b) b else Inr (Fin 0))"

text \<open>\<^verbatim>\<open>float(np.clip((variance_pct * 0.6 + overload * 0.4) * 100, -1000, 1000))\<close>\<close>

definition risk_score_of :: "pyfloat \<Rightarrow> pyfloat \<Rightarrow> pyfloat" where
  "risk_score_of var ov =
     clip (fmul (fadd (fmul var (Fin (3 / 5))) (fmul ov (Fin (2 / 5)))) (Fin 100)) (- 1000) 1000"

definition compute_kpis :: "degenerate_fit \<Rightarrow> dataframe \<Rightarrow> error + kpis" where
  "compute_kpis dg df =
     bind_err (iloc0 (map budget df)) (\<lambda>b.
       let start = series_min (map start_date df);
           end = series_max (map end_date df);
           latest = last (sort_values_date df);
           l_date = date latest;
           spend = cumulative_spend latest;
           dt = positive_or_one (delta_days end start);
           de = positive_or_one (delta_days l_date start)
       in bind_err (pct_execution_of spend b) (\<lambda>pct.
          bind_err (variance_pct_of spend b) (\<lambda>var.
          bind_err (burn_rate_of spend de) (\<lambda>burn.
          bind_err (forecast_of dg df start spend dt de) (\<lambda>forecast.
          bind_err (overload_of forecast b) (\<lambda>ov.
            Inr \<lparr> kpi_budget = b, latest_spend = spend, pct_execution = pct,
                  variance_pct = var, burn_rate = burn, days_elapsed = de, days_total = dt,
                  forecast_to_complete = forecast, risk_score = risk_score_of var ov,
                  latest_date = l_date \<rparr>))))))"

subsection \<open>flag_risk\<close>

text \<open>
  The dictionary \<^verbatim>\<open>flag_risk\<close> reads: keys to floats. \<open>as_dict\<close> gives the float-valued
  entries of the dictionary that \<^verbatim>\<open>compute_kpis\<close> returns.
\<close>

type_synonym kpi_dict = "string \<rightharpoonup> pyfloat"

definition as_dict :: "kpis \<Rightarrow> kpi_dict" where
  "as_dict k = map_of
     [(''budget'', kpi_budget k), (''latest_spend'', latest_spend k),
      (''pct_execution'', pct_execution k), (''variance_pct'', variance_pct k),
      (''burn_rate'', burn_rate k), (''forecast_to_complete'', forecast_to_complete k),
      (''risk_score'', risk_score k)]"

text \<open>\<^verbatim>\<open>d.get(key, default)\<close> and \<^verbatim>\<open>d[key]\<close>.\<close>

definition dict_get :: "kpi_dict \<Rightarrow> string \<Rightarrow> pyfloat \<Rightarrow> pyfloat" where
  "dict_get d key dflt = (case d key of Some v \<Rightarrow> v | None \<Rightarrow> dflt)"

definition dict_item :: "kpi_dict \<Rightarrow> string \<Rightarrow> error + pyfloat" where
  "dict_item d key = (case d key of Some v \<Rightarrow> Inr v | None \<Rightarrow> Inl KeyError)"

text \<open>
  The messages, in place of their text; the number a message prints is kept, its
  \<^verbatim>\<open>.1f\<close> rendering is not modelled, and the result carries the list that the source
  joins with \<^verbatim>\<open>" | "\<close>.
  \<^item> \<open>Desviacion v\<close>: "Desviacion actual v% vs presupuesto.", \<open>v\<close> = variance_pct * 100;
  \<^item> \<open>Riesgo v\<close>: "Riesgo estimado v.";
  \<^item> \<open>Sobrecosto\<close>: "Proyeccion indica posible sobrecosto.";
  \<^item> \<open>SinRiesgos\<close>: "No se detectan riesgos relevantes en umbrales actuales."
\<close>

datatype message = Desviacion pyfloat | Riesgo pyfloat | Sobrecosto | SinRiesgos

definition flag_risk :: "kpi_dict \<Rightarrow> pyfloat \<Rightarrow> pyfloat \<Rightarrow> error + (bool \<times> message list)" where
  "flag_risk kp variance_threshold risk_threshold =
     (let is_var = fge (fabs (dict_get kp ''variance_pct'' (Fin 0))) variance_threshold;
          is_risk = fge (fabs (dict_get kp ''risk_score'' (Fin 0))) risk_threshold;
          over = fgt (dict_get kp ''forecast_to_complete'' (Fin 0)) (dict_get kp ''budget'' (Fin 0))
      in bind_err (if is_var
                   then bind_err (dict_item kp ''variance_pct'')
                          (\<lambda>v. Inr ([] @ [Desviacion (fmul v (Fin 100))]))
                   else Inr []) (\<lambda>messages.
         bind_err (if is_risk
                   then bind_err (dict_item kp ''risk_score'') (\<lambda>v. Inr (messages @ [Riesgo v]))
                   else Inr messages) (\<lambda>messages.
         let messages = (if over then messages @ [Sobrecosto] else messages);
             messages = (if messages = [] then messages @ [SinRiesgos] else messages)
         in Inr (is_var \<or> is_risk \<or> over, messages))))"

text \<open>The default thresholds of the signature: 0.10 and 5.0.\<close>

definition default_variance_threshold :: pyfloat where
  "default_variance_threshold = Fin (1 / 10)"

definition default_risk_threshold :: pyfloat where
  "default_risk_threshold = Fin 5"

subsection \<open>summary_table\<close>

record summary_row =
  s_project_id :: string
  s_project_name :: string
  s_budget :: pyfloat
  s_latest_spend :: pyfloat
  s_pct_execution :: pyfloat
  s_variance_pct :: pyfloat
  s_forecast_to_complete :: pyfloat
  s_risk_score :: pyfloat

text \<open>
  \<^verbatim>\<open>df.groupby("project_id")\<close>: one group per key, the keys in ascending order, the rows of
  a group in index order.
\<close>

definition groupby :: "dataframe \<Rightarrow> (string \<times> dataframe) list" where
  "groupby df =
     map (\<lambda>pid. (pid, filter (\<lambda>r. project_id r = pid) df)) (sort (remdups (map project_id df)))"

text \<open>The loop over the groups, appending one row per group.\<close>

fun summary_rows :: "degenerate_fit \<Rightarrow> (string \<times> dataframe) list \<Rightarrow> summary_row list
    \<Rightarrow> error + summary_row list" where
  "summary_rows dg [] projects = Inr projects"
| "summary_rows dg ((pid, grp) # gs) projects =
     bind_err (compute_kpis dg grp) (\<lambda>k.
     bind_err (iloc0 (map project_name grp)) (\<lambda>name.
       summary_rows dg gs
         (projects @ [\<lparr> s_project_id = pid, s_project_name = name, s_budget = kpi_budget k,
                        s_latest_spend = latest_spend k, s_pct_execution = pct_execution k,
                        s_variance_pct = variance_pct k,
                        s_forecast_to_complete = forecast_to_complete k,
                        s_risk_score = risk_score k \<rparr>])))"

text \<open>An order-preserving key for the floats that are not NaN.\<close>

definition risk_key :: "pyfloat \<Rightarrow> int \<times> rat" where
  "risk_key x = (case x of NInf \<Rightarrow> (- 1, 0) | Fin r \<Rightarrow> (0, r) | PInf \<Rightarrow> (1, 0) | NaN \<Rightarrow> (2, 0))"

text \<open>
  \<^verbatim>\<open>sort_values("risk_score", ascending=False)\<close>, as pandas' \<^verbatim>\<open>nargsort\<close> computes it:
  the rows whose key is not NaN are reversed, sorted ascending and reversed again; the NaN
  rows follow in index order. The ascending sort is taken to be stable.
\<close>

definition sort_values_risk_desc :: "summary_row list \<Rightarrow> summary_row list" where
  "sort_values_risk_desc projects =
     (let non_nans = filter (\<lambda>p. \<not> isnan (s_risk_score p)) projects;
          nans = filter (\<lambda>p. isnan (s_risk_score p)) projects
      in rev (sort_key (\<lambda>p. risk_key (s_risk_score p)) (rev non_nans)) @ nans)"

text \<open>
  A frame without rows has no groups; \<^verbatim>\<open>pd.DataFrame([])\<close> has no column
  \<^verbatim>\<open>risk_score\<close> and sorting by it raises \<^verbatim>\<open>KeyError\<close>.
\<close>

definition summary_table :: "degenerate_fit \<Rightarrow> dataframe \<Rightarrow> error + summary_row list" where
  "summary_table dg df =
     bind_err (summary_rows dg (groupby df) []) (\<lambda>projects.
       if projects = [] then Inl KeyError else Inr (sort_values_risk_desc projects))"

subsection \<open>Notions used to state the properties\<close>







text \<open>A dictionary in which the four keys that \<^verbatim>\<open>flag_risk\<close> reads are never absent.\<close>

definition with_defaults :: "kpi_dict \<Rightarrow> kpi_dict" where
  "with_defaults kp =
     (\<lambda>key. if key \<in> {''variance_pct'', ''risk_score'', ''forecast_to_complete'', ''budget''}
            then Some (dict_get kp key (Fin 0)) else kp key)"

subsection \<open>Example frames\<close>

definition mk_row :: "string \<Rightarrow> pyfloat \<Rightarrow> timestamp \<Rightarrow> timestamp \<Rightarrow> timestamp \<Rightarrow> pyfloat \<Rightarrow> row" where
  "mk_row pid b s e d c =
     \<lparr> project_id = pid, project_name = pid, budget = b, start_date = s, end_date = e,
       date = d, cumulative_spend = c \<rparr>"

text \<open>Budget 1000, days 0 to 40, spend 0, 400 and 800 on days 0, 10 and 20.\<close>

definition example_df :: dataframe where
  "example_df =
     [mk_row ''P1'' (Fin 1000) (Some 0) (Some 40) (Some 0) (Fin 0),
      mk_row ''P1'' (Fin 1000) (Some 0) (Some 40) (Some 10) (Fin 400),
      mk_row ''P1'' (Fin 1000) (Some 0) (Some 40) (Some 20) (Fin 800)]"

text \<open>One point whose spend cell was malformed.\<close>

definition missing_spend_df :: dataframe where
  "missing_spend_df = [mk_row ''P1'' (Fin 1000) (Some 0) (Some 40) (Some 10) NaN]"

text \<open>One point of a project whose budget cell was empty.\<close>

definition missing_budget_df :: dataframe where
  "missing_budget_df = [mk_row ''P1'' NaN (Some 0) (Some 40) (Some 10) (Fin 400)]"

text \<open>Budget 0, two points.\<close>

definition zero_budget_df :: dataframe where
  "zero_budget_df =
     [mk_row ''P1'' (Fin 0) (Some 0) (Some 40) (Some 10) (Fin 400),
      mk_row ''P1'' (Fin 0) (Some 0) (Some 40) (Some 20) (Fin 800)]"

text \<open>End before start, and the only point dated before the start.\<close>

definition reversed_dates_df :: dataframe where
  "reversed_dates_df = [mk_row ''P1'' (Fin 1000) (Some 40) (Some 0) (Some 10) (Fin 400)]"

text \<open>Two points on the same day, day 10.\<close>

definition same_day_df :: dataframe where
  "same_day_df =
     [mk_row ''P1'' (Fin 1000) (Some 0) (Some 40) (Some 10) (Fin 400),
      mk_row ''P1'' (Fin 1000) (Some 0) (Some 40) (Some 10) (Fin 800)]"


section \<open>Properties\<close>

subsection \<open>Auxiliary facts: errors and floats\<close>

lemma bind_err_Inr_iff: "(bind_err m f = Inr k) = (\<exists>v. m = Inr v \<and> f v = Inr k)"
  by (cases m) (simp_all add: bind_err_def)

lemma iloc0_Inr_iff: "(iloc0 xs = Inr v) = (xs \<noteq> [] \<and> v = hd xs)"
  by (cases xs) (auto simp: iloc0_def)

lemma positive_or_one_ge1: "1 \<le> positive_or_one d"
  by (simp add: positive_or_one_def split: option.splits)

lemma fdiv_nonzero: "b \<noteq> Fin 0 \<Longrightarrow> \<exists>q. fdiv a b = Inr q"
  by (cases b) auto

lemma fdiv_days:
  "1 \<le> de \<Longrightarrow> fdiv a (Fin (of_int de)) =
     Inr (case a of Fin r \<Rightarrow> Fin (r / of_int de) | PInf \<Rightarrow> PInf | NInf \<Rightarrow> NInf | NaN \<Rightarrow> NaN)"
  by (cases a) (auto simp: signed_inf_def)

lemma fmul_commute: "fmul a b = fmul b a"
  by (cases a; cases b) (simp_all add: mult.commute)

lemma clip_range:
  "lo \<le> hi \<Longrightarrow> clip v lo hi = NaN \<or> (\<exists>r. clip v lo hi = Fin r \<and> lo \<le> r \<and> r \<le> hi)"
  by (cases v) (auto simp: clip_def)

subsection \<open>Auxiliary facts: the parts of compute_kpis\<close>

lemma fallback_forecast_eq:
  "1 \<le> de \<Longrightarrow> fallback_forecast spend dt de = Inr (fmul spend (Fin (of_int dt / of_int de)))"
  by (simp add: fallback_forecast_def bind_err_def fdiv_days)

lemma forecast_of_total: "1 \<le> de \<Longrightarrow> \<exists>f. forecast_of dg df start spend dt de = Inr f"
  by (auto simp: forecast_of_def Let_def fallback_forecast_eq split: option.splits)

lemma pct_execution_of_total: "\<exists>p. pct_execution_of s b = Inr p"
  using fdiv_nonzero by (auto simp: pct_execution_of_def truthy_def)

lemma variance_pct_of_total: "\<exists>p. variance_pct_of s b = Inr p"
  using fdiv_nonzero by (auto simp: variance_pct_of_def truthy_def)

lemma overload_of_total: "\<exists>p. overload_of s b = Inr p"
  using fdiv_nonzero by (auto simp: overload_of_def truthy_def)

lemma burn_rate_of_eq: "1 \<le> de \<Longrightarrow> burn_rate_of s de = fdiv s (Fin (of_int de))"
  by (auto simp: burn_rate_of_def)

text \<open>What a returned record holds, field by field.\<close>

lemma compute_kpis_Inr:
  assumes "compute_kpis dg df = Inr k"
  shows "df \<noteq> []"
    and "kpi_budget k = budget (hd df)"
    and "latest_spend k = cumulative_spend (last (sort_values_date df))"
    and "latest_date k = date (last (sort_values_date df))"
    and "days_total k = positive_or_one
           (delta_days (series_max (map end_date df)) (series_min (map start_date df)))"
    and "days_elapsed k = positive_or_one
           (delta_days (latest_date k) (series_min (map start_date df)))"
    and "pct_execution_of (latest_spend k) (kpi_budget k) = Inr (pct_execution k)"
    and "variance_pct_of (latest_spend k) (kpi_budget k) = Inr (variance_pct k)"
    and "burn_rate_of (latest_spend k) (days_elapsed k) = Inr (burn_rate k)"
    and "forecast_of dg df (series_min (map start_date df)) (latest_spend k) (days_total k)
           (days_elapsed k) = Inr (forecast_to_complete k)"
    and "\<exists>ov. overload_of (forecast_to_complete k) (kpi_budget k) = Inr ov
           \<and> risk_score k = risk_score_of (variance_pct k) ov"
  using assms
  unfolding compute_kpis_def Let_def bind_err_Inr_iff iloc0_Inr_iff
  by (auto simp: hd_map)

text \<open>A frame with at least one row always gets its record: no exception escapes.\<close>

lemma compute_kpis_total:
  assumes ne: "df \<noteq> []"
  shows "\<exists>k. compute_kpis dg df = Inr k"
proof -
  define start where "start = series_min (map start_date df)"
  define spend where "spend = cumulative_spend (last (sort_values_date df))"
  define dt where "dt = positive_or_one (delta_days (series_max (map end_date df)) start)"
  define de where "de = positive_or_one (delta_days (date (last (sort_values_date df))) start)"
  have de: "1 \<le> de" by (simp add: de_def positive_or_one_ge1)
  obtain p where p: "pct_execution_of spend (budget (hd df)) = Inr p"
    using pct_execution_of_total by blast
  obtain v where v: "variance_pct_of spend (budget (hd df)) = Inr v"
    using variance_pct_of_total by blast
  obtain b where b: "burn_rate_of spend de = Inr b"
    using burn_rate_of_eq[OF de] fdiv_days[OF de] by metis
  obtain f where f: "forecast_of dg df start spend dt de = Inr f"
    using forecast_of_total[OF de] by blast
  obtain ov where ov: "overload_of f (budget (hd df)) = Inr ov"
    using overload_of_total by blast
  have i: "iloc0 (map budget df) = Inr (budget (hd df))"
    using ne by (simp add: iloc0_Inr_iff hd_map)
  show ?thesis
    unfolding compute_kpis_def Let_def bind_err_Inr_iff i
    using p v b f ov
    unfolding start_def spend_def dt_def de_def
    by blast
qed

text \<open>Unfolding equations for evaluating \<^verbatim>\<open>compute_kpis\<close> on a concrete frame.\<close>

lemmas kpi_eval =
  compute_kpis_def iloc0_def bind_err_def Let_def mk_row_def series_min_def series_max_def
  present_def sort_values_date_def delta_days_def positive_or_one_def pct_execution_of_def
  variance_pct_of_def burn_rate_of_def forecast_of_def fallback_forecast_def overload_of_def
  risk_score_of_def clip_def truthy_def fsub_def fneg_def days_float_def isfinite_def
  fin_val_def polyfit_def fit_det_def fit_slope_def fit_intercept_def signed_inf_def

subsection \<open>Empty frames\<close>

text \<open>
  Claim C1, as amended. An empty frame makes \<^verbatim>\<open>compute_kpis\<close> fail at its first
  statement, \<^verbatim>\<open>df["budget"].iloc[0]\<close>, with pandas' \<^verbatim>\<open>IndexError\<close>; no record is
  returned, zero-valued or other.
\<close>

theorem C1_empty_frame_raises_IndexError: "compute_kpis dg [] = Inl IndexError"
  by (simp add: compute_kpis_def iloc0_def bind_err_def)

text \<open>
  Claim C1 as the specification states it fails: the error of the empty frame is not
  \<open>EmptySeriesError\<close>.
\<close>

theorem C1_counterexample: "compute_kpis fit_raises [] \<noteq> Inl EmptySeriesError"
  by (simp add: compute_kpis_def iloc0_def bind_err_def)

subsection \<open>Day counts and burn rate\<close>

text \<open>
  Claim C7. Whatever the dates of a frame with at least one row (end before start, the
  same day, a latest point before the start, missing dates), \<^verbatim>\<open>compute_kpis\<close> returns
  a record, and its \<open>days_total\<close> and \<open>days_elapsed\<close> are at least 1.
\<close>

theorem C7_days_at_least_one:
  assumes "df \<noteq> []"
  shows "\<exists>k. compute_kpis dg df = Inr k \<and> 1 \<le> days_total k \<and> 1 \<le> days_elapsed k"
proof -
  obtain k where k: "compute_kpis dg df = Inr k" using compute_kpis_total[OF assms] by blast
  have "1 \<le> days_total k" "1 \<le> days_elapsed k"
    using compute_kpis_Inr(5,6)[OF k] by (simp_all add: positive_or_one_ge1)
  with k show ?thesis by blast
qed

text \<open>
  Claim C7 at the frame whose end date precedes its start date and whose only point is dated
  before the start.
\<close>

theorem C7_witness:
  "\<exists>k. compute_kpis fit_raises reversed_dates_df = Inr k \<and> 1 \<le> days_total k \<and> 1 \<le> days_elapsed k"
  using C7_days_at_least_one[of reversed_dates_df fit_raises]
  by (simp add: reversed_dates_df_def)

text \<open>
  Claim C10. For a frame with at least one row \<open>days_elapsed\<close> is never 0, so the guard of
  \<^verbatim>\<open>latest_spend / days_elapsed if days_elapsed else 0\<close> never takes its \<^verbatim>\<open>else\<close>
  branch: \<open>burn_rate\<close> is the quotient, and the division does not raise.
\<close>

theorem C10_burn_rate_guard_unreachable:
  assumes "df \<noteq> []"
  shows "\<exists>k. compute_kpis dg df = Inr k \<and> days_elapsed k \<noteq> 0
           \<and> fdiv (latest_spend k) (Fin (of_int (days_elapsed k))) = Inr (burn_rate k)"
proof -
  obtain k where k: "compute_kpis dg df = Inr k" using compute_kpis_total[OF assms] by blast
  have de: "1 \<le> days_elapsed k"
    using compute_kpis_Inr(6)[OF k] by (simp add: positive_or_one_ge1)
  have "fdiv (latest_spend k) (Fin (of_int (days_elapsed k))) = Inr (burn_rate k)"
    using compute_kpis_Inr(9)[OF k] burn_rate_of_eq[OF de] by simp
  with k de show ?thesis by auto
qed

text \<open>
  Claim C10 at the frame with reversed dates, where \<open>days_elapsed\<close> is the clamped 1.
\<close>

theorem C10_witness:
  "\<exists>k. compute_kpis fit_raises reversed_dates_df = Inr k \<and> days_elapsed k \<noteq> 0
           \<and> fdiv (latest_spend k) (Fin (of_int (days_elapsed k))) = Inr (burn_rate k)"
  using C10_burn_rate_guard_unreachable[of reversed_dates_df fit_raises]
  by (simp add: reversed_dates_df_def)

subsection \<open>Budget zero, budget missing\<close>

lemma risk_score_of_zero: "risk_score_of (Fin 0) (Fin 0) = Fin 0"
  by (simp add: risk_score_of_def clip_def)

text \<open>
  Claim C2, as amended. When the budget of a frame with at least one row is exactly 0,
  \<^verbatim>\<open>compute_kpis\<close> returns a record (no division fails) with \<open>pct_execution\<close>,
  \<open>variance_pct\<close> and the overload all 0, and so with \<open>risk_score\<close> 0.
\<close>

theorem C2_zero_budget:
  assumes "df \<noteq> []" and "budget (hd df) = Fin 0"
  shows "\<exists>k. compute_kpis dg df = Inr k \<and> pct_execution k = Fin 0 \<and> variance_pct k = Fin 0
           \<and> overload_of (forecast_to_complete k) (kpi_budget k) = Inr (Fin 0)
           \<and> risk_score k = Fin 0"
proof -
  obtain k where k: "compute_kpis dg df = Inr k" using compute_kpis_total[OF assms(1)] by blast
  have b: "kpi_budget k = Fin 0" using compute_kpis_Inr(2)[OF k] assms(2) by simp
  have p: "pct_execution k = Fin 0"
    using compute_kpis_Inr(7)[OF k] b by (simp add: pct_execution_of_def truthy_def)
  have v: "variance_pct k = Fin 0"
    using compute_kpis_Inr(8)[OF k] b by (simp add: variance_pct_of_def truthy_def)
  have o: "overload_of (forecast_to_complete k) (kpi_budget k) = Inr (Fin 0)"
    using b by (simp add: overload_of_def truthy_def)
  have r: "risk_score k = Fin 0"
    using compute_kpis_Inr(11)[OF k] o v risk_score_of_zero by auto
  from k p v o r show ?thesis by blast
qed

text \<open>
  Claim C2, as amended, at a frame with budget 0 and two points.
\<close>

theorem C2_witness:
  "\<exists>k. compute_kpis fit_raises zero_budget_df = Inr k \<and> pct_execution k = Fin 0 \<and> variance_pct k = Fin 0
           \<and> overload_of (forecast_to_complete k) (kpi_budget k) = Inr (Fin 0)
           \<and> risk_score k = Fin 0"
  using C2_zero_budget[of zero_budget_df fit_raises]
  by (simp add: zero_budget_df_def mk_row_def)

text \<open>
  Claim C2 as the specification states it fails for an absent budget: the cell is NaN, NaN is
  truthy, and the quotients are NaN, not 0.
\<close>

theorem C2_counterexample:
  "compute_kpis fit_raises missing_budget_df =
     Inr \<lparr> kpi_budget = NaN, latest_spend = Fin 400, pct_execution = NaN, variance_pct = NaN,
           burn_rate = Fin 40, days_elapsed = 10, days_total = 40,
           forecast_to_complete = Fin 1600, risk_score = NaN, latest_date = Some 10 \<rparr>"
  by (simp add: missing_budget_df_def kpi_eval)

subsection \<open>The risk score\<close>

text \<open>
  Claim C3, as amended. For a frame with at least one row the \<open>risk_score\<close> is
  \<^verbatim>\<open>clip(100 * (0.6 * variance_pct + 0.4 * overload), -1000, 1000)\<close>; \<^verbatim>\<open>np.clip\<close>
  passes NaN through, so the score is either NaN or a number between -1000 and 1000.
\<close>

theorem C3_risk_score_clip:
  assumes "df \<noteq> []"
  shows "\<exists>k ov. compute_kpis dg df = Inr k
           \<and> overload_of (forecast_to_complete k) (kpi_budget k) = Inr ov
           \<and> risk_score k =
               clip (fmul (Fin 100) (fadd (fmul (Fin (3 / 5)) (variance_pct k)) (fmul (Fin (2 / 5)) ov)))
                 (- 1000) 1000
           \<and> (risk_score k = NaN \<or> (\<exists>r. risk_score k = Fin r \<and> - 1000 \<le> r \<and> r \<le> 1000))"
proof -
  obtain k where k: "compute_kpis dg df = Inr k" using compute_kpis_total[OF assms] by blast
  obtain ov where ov: "overload_of (forecast_to_complete k) (kpi_budget k) = Inr ov"
    and r: "risk_score k = risk_score_of (variance_pct k) ov"
    using compute_kpis_Inr(11)[OF k] by blast
  have e: "risk_score k =
      clip (fmul (Fin 100) (fadd (fmul (Fin (3 / 5)) (variance_pct k)) (fmul (Fin (2 / 5)) ov)))
        (- 1000) 1000"
    unfolding r risk_score_of_def
    by (simp only: fmul_commute[of "Fin 100"] fmul_commute[of "Fin (3 / 5)"] fmul_commute[of "Fin (2 / 5)"])
  have "risk_score k = NaN \<or> (\<exists>r. risk_score k = Fin r \<and> - 1000 \<le> r \<and> r \<le> 1000)"
    unfolding e by (rule clip_range) simp
  with k ov e show ?thesis by blast
qed

text \<open>
  Claim C3, as amended, at the example frame, whose score is 12.
\<close>

theorem C3_witness:
  "\<exists>k ov. compute_kpis fit_raises example_df = Inr k
           \<and> overload_of (forecast_to_complete k) (kpi_budget k) = Inr ov
           \<and> risk_score k =
               clip (fmul (Fin 100) (fadd (fmul (Fin (3 / 5)) (variance_pct k)) (fmul (Fin (2 / 5)) ov)))
                 (- 1000) 1000
           \<and> (risk_score k = NaN \<or> (\<exists>r. risk_score k = Fin r \<and> - 1000 \<le> r \<and> r \<le> 1000))"
  using C3_risk_score_clip[of example_df fit_raises]
  by (simp add: example_df_def)

text \<open>
  Claim C3 as the specification states it fails: a point whose spend is missing gives the
  \<open>risk_score\<close> NaN, which lies in no interval.
\<close>

theorem C3_counterexample:
  "compute_kpis fit_raises missing_spend_df =
     Inr \<lparr> kpi_budget = Fin 1000, latest_spend = NaN, pct_execution = NaN, variance_pct = NaN,
           burn_rate = NaN, days_elapsed = 10, days_total = 40,
           forecast_to_complete = NaN, risk_score = NaN, latest_date = Some 10 \<rparr>"
  by (simp add: missing_spend_df_def kpi_eval)

subsection \<open>flag_risk\<close>

lemma as_dict_lookups:
  "as_dict k ''variance_pct'' = Some (variance_pct k)"
  "as_dict k ''risk_score'' = Some (risk_score k)"
  "as_dict k ''forecast_to_complete'' = Some (forecast_to_complete k)"
  "as_dict k ''budget'' = Some (kpi_budget k)"
  by (simp_all add: as_dict_def)

text \<open>
  Claim C6. On the dictionary of a KPI record, with any thresholds, \<^verbatim>\<open>flag_risk\<close>
  returns: the flag is the disjunction of the three conditions; the messages are the variance
  message, the risk message and the over-budget message, each present exactly when its
  condition holds and in this order, and the fallback message alone exactly when no
  condition holds.
\<close>

theorem C6_flag_risk_conditions:
  "flag_risk (as_dict k) vt rt =
     Inr (fge (fabs (variance_pct k)) vt \<or> fge (fabs (risk_score k)) rt
            \<or> fgt (forecast_to_complete k) (kpi_budget k),
          (if fge (fabs (variance_pct k)) vt then [Desviacion (fmul (variance_pct k) (Fin 100))] else [])
          @ (if fge (fabs (risk_score k)) rt then [Riesgo (risk_score k)] else [])
          @ (if fgt (forecast_to_complete k) (kpi_budget k) then [Sobrecosto] else [])
          @ (if fge (fabs (variance_pct k)) vt \<or> fge (fabs (risk_score k)) rt
                \<or> fgt (forecast_to_complete k) (kpi_budget k) then [] else [SinRiesgos]))"
  by (simp add: flag_risk_def Let_def dict_get_def dict_item_def bind_err_def as_dict_lookups)

text \<open>
  Claim C9 as stated fails: with no \<^verbatim>\<open>variance_pct\<close> in the dictionary and the
  variance threshold 0, the test \<^verbatim>\<open>abs(0) >= 0\<close> succeeds and the message then reads
  \<^verbatim>\<open>kpis['variance_pct']\<close>, which raises \<^verbatim>\<open>KeyError\<close>.
\<close>

theorem C9_counterexample:
  "flag_risk Map.empty (Fin 0) default_risk_threshold = Inl KeyError"
  by (simp add: flag_risk_def Let_def dict_get_def dict_item_def bind_err_def
        default_risk_threshold_def fge_def fabs_def isnan_def)

lemma fge_zero_pos: "fgt t (Fin 0) \<Longrightarrow> \<not> fge (fabs (Fin 0)) t"
  by (cases t) (auto simp: fge_def fabs_def isnan_def)

lemma dict_get_with_defaults:
  "key \<in> {''variance_pct'', ''risk_score'', ''forecast_to_complete'', ''budget''} \<Longrightarrow>
   dict_get (with_defaults kp) key (Fin 0) = dict_get kp key (Fin 0)"
  by (simp add: dict_get_def with_defaults_def)

lemma flag_risk_item:
  "fgt t (Fin 0) \<Longrightarrow> fge (fabs (dict_get kp key (Fin 0))) t \<Longrightarrow>
   dict_item kp key = Inr (dict_get kp key (Fin 0))"
  using fge_zero_pos by (auto simp: dict_item_def dict_get_def split: option.splits)

text \<open>
  Claim C9, as amended. With both thresholds positive, \<^verbatim>\<open>flag_risk\<close> returns on every
  dictionary, and returns what it returns on the dictionary in which each absent field among
  the four it reads is 0; on the empty dictionary the result is: not risky, with the fallback
  message alone.
\<close>

theorem C9_absent_fields_positive_thresholds:
  assumes "fgt vt (Fin 0)" and "fgt rt (Fin 0)"
  shows "flag_risk kp vt rt = flag_risk (with_defaults kp) vt rt
         \<and> (\<exists>res. flag_risk kp vt rt = Inr res)
         \<and> flag_risk Map.empty vt rt = Inr (False, [SinRiesgos])"
proof -
  have g: "dict_get (with_defaults kp) ''variance_pct'' (Fin 0) = dict_get kp ''variance_pct'' (Fin 0)"
      "dict_get (with_defaults kp) ''risk_score'' (Fin 0) = dict_get kp ''risk_score'' (Fin 0)"
      "dict_get (with_defaults kp) ''forecast_to_complete'' (Fin 0) = dict_get kp ''forecast_to_complete'' (Fin 0)"
      "dict_get (with_defaults kp) ''budget'' (Fin 0) = dict_get kp ''budget'' (Fin 0)"
    by (simp_all add: dict_get_with_defaults)
  have i: "dict_item (with_defaults kp) ''variance_pct'' = Inr (dict_get kp ''variance_pct'' (Fin 0))"
      "dict_item (with_defaults kp) ''risk_score'' = Inr (dict_get kp ''risk_score'' (Fin 0))"
    by (simp_all add: dict_item_def with_defaults_def)
  have closed: "flag_risk d vt rt =
     Inr (fge (fabs (dict_get d ''variance_pct'' (Fin 0))) vt \<or> fge (fabs (dict_get d ''risk_score'' (Fin 0))) rt
            \<or> fgt (dict_get d ''forecast_to_complete'' (Fin 0)) (dict_get d ''budget'' (Fin 0)),
          (if fge (fabs (dict_get d ''variance_pct'' (Fin 0))) vt then [Desviacion (fmul (dict_get d ''variance_pct'' (Fin 0)) (Fin 100))] else [])
          @ (if fge (fabs (dict_get d ''risk_score'' (Fin 0))) rt then [Riesgo (dict_get d ''risk_score'' (Fin 0))] else [])
          @ (if fgt (dict_get d ''forecast_to_complete'' (Fin 0)) (dict_get d ''budget'' (Fin 0)) then [Sobrecosto] else [])
          @ (if fge (fabs (dict_get d ''variance_pct'' (Fin 0))) vt \<or> fge (fabs (dict_get d ''risk_score'' (Fin 0))) rt
                \<or> fgt (dict_get d ''forecast_to_complete'' (Fin 0)) (dict_get d ''budget'' (Fin 0)) then [] else [SinRiesgos]))"
    for d
    using flag_risk_item[OF assms(1), of d "''variance_pct''"] flag_risk_item[OF assms(2), of d "''risk_score''"]
    by (simp add: flag_risk_def Let_def bind_err_def)
  have 1: "flag_risk kp vt rt = flag_risk (with_defaults kp) vt rt"
    unfolding closed[of kp] closed[of "with_defaults kp"] g ..
  have 2: "\<exists>res. flag_risk kp vt rt = Inr res" unfolding closed[of kp] by blast
  have 3: "flag_risk Map.empty vt rt = Inr (False, [SinRiesgos])"
    unfolding closed[of Map.empty] using fge_zero_pos[OF assms(1)] fge_zero_pos[OF assms(2)]
    by (simp add: dict_get_def)
  from 1 2 3 show ?thesis by blast
qed

text \<open>
  Claim C9, as amended, at the default thresholds and a dictionary that holds the forecast
  only.
\<close>

theorem C9_witness:
  "flag_risk (map_of [(''forecast_to_complete'', Fin 1600)]) default_variance_threshold default_risk_threshold
     = flag_risk (with_defaults (map_of [(''forecast_to_complete'', Fin 1600)])) default_variance_threshold default_risk_threshold
   \<and> (\<exists>res. flag_risk (map_of [(''forecast_to_complete'', Fin 1600)]) default_variance_threshold default_risk_threshold = Inr res)
   \<and> flag_risk Map.empty default_variance_threshold default_risk_threshold = Inr (False, [SinRiesgos])"
proof -
  have v: "fgt default_variance_threshold (Fin 0)" by (simp add: default_variance_threshold_def)
  have r: "fgt default_risk_threshold (Fin 0)" by (simp add: default_risk_threshold_def)
  show ?thesis by (rule C9_absent_fields_positive_thresholds[OF v r])
qed

subsection \<open>The worked example\<close>



subsection \<open>The forecast\<close>





lemma sum_list_squares_nonneg: "0 \<le> sum_list (map (\<lambda>x. f x * f x) xs)" for f :: "rat \<Rightarrow> rat"
  by (induction xs) simp_all


text \<open>
  The fit is unique exactly when the abscissae are not all equal: \<open>fit_det\<close> is \<open>n\<close>
  times the sum of the squared deviations from the mean.
\<close>

lemma fit_det_eq:
  "xs \<noteq> [] \<Longrightarrow> fit_det xs = of_nat (length xs) *
     sum_list (map (\<lambda>x. (x - sum_list xs / of_nat (length xs)) * (x - sum_list xs / of_nat (length xs))) xs)"
proof -
  assume ne: "xs \<noteq> []"
  have gen: "sum_list (map (\<lambda>x. (x - m) * (x - m)) zs)
     = sum_list (map (\<lambda>x. x * x) zs) - 2 * m * sum_list zs + of_nat (length zs) * m * m" for m :: rat and zs
    by (induction zs) (simp_all add: algebra_simps)
  have n: "(of_nat (length xs) :: rat) \<noteq> 0" using ne by simp
  show ?thesis
    unfolding gen fit_det_def using n by (simp add: field_simps)
qed

lemma sum_sq_zero_iff: "sum_list (map (\<lambda>x. f x * f x) xs) = 0 \<longleftrightarrow> (\<forall>x\<in>set xs. f x = 0)" for f :: "rat \<Rightarrow> rat"
proof (induction xs)
  case Nil show ?case by simp
next
  case (Cons x xs)
  have "0 \<le> f x * f x" by simp
  moreover have "0 \<le> sum_list (map (\<lambda>x. f x * f x) xs)" by (rule sum_list_squares_nonneg)
  ultimately have "f x * f x + sum_list (map (\<lambda>x. f x * f x) xs) = 0 \<longleftrightarrow> f x * f x = 0 \<and> sum_list (map (\<lambda>x. f x * f x) xs) = 0"
    by (simp add: add_nonneg_eq_0_iff)
  with Cons show ?case by simp
qed

lemma fit_det_zero_iff: "fit_det xs = 0 \<longleftrightarrow> (\<forall>x\<in>set xs. \<forall>y\<in>set xs. x = y)"
proof (cases "xs = []")
  case True then show ?thesis by (simp add: fit_det_def)
next
  case False
  define m where "m = sum_list xs / of_nat (length xs)"
  have "fit_det xs = 0 \<longleftrightarrow> (\<forall>x\<in>set xs. x - m = 0)"
    using False by (simp add: fit_det_eq m_def[symmetric] sum_sq_zero_iff[of "\<lambda>x. x - m"])
  also have "\<dots> \<longleftrightarrow> (\<forall>x\<in>set xs. \<forall>y\<in>set xs. x = y)"
  proof
    assume "\<forall>x\<in>set xs. x - m = 0" then show "\<forall>x\<in>set xs. \<forall>y\<in>set xs. x = y" by (metis eq_iff_diff_eq_0)
  next
    assume a: "\<forall>x\<in>set xs. \<forall>y\<in>set xs. x = y"
    obtain z zs where xs: "xs = z # zs" using False by (cases xs) auto
    have all: "\<forall>x\<in>set xs. x = z" using a xs by auto
    then have "map (\<lambda>_. z) xs = xs" by (simp add: map_idI)
    then have "sum_list xs = sum_list (map (\<lambda>_. z) xs)" by simp
    also have "\<dots> = of_nat (length xs) * z" by (simp add: sum_list_triv)
    finally have "m = z" using False by (simp add: m_def)
    with all show "\<forall>x\<in>set xs. x - m = 0" by simp
  qed
  finally show ?thesis .
qed








text \<open>
  Two points on one day: the offsets are all equal and the outcome is the fit's. If the fit
  raises, the forecast is the fallback, 800 * (40 / 10); if it returns the minimum-norm line, the
  forecast is that line at day 40 and the fallback is not used.
\<close>

lemma same_day_forecast:
  "compute_kpis fit_raises same_day_df =
     Inr \<lparr> kpi_budget = Fin 1000, latest_spend = Fin 800, pct_execution = Fin (4 / 5),
           variance_pct = Fin (- (1 / 5)), burn_rate = Fin 80, days_elapsed = 10, days_total = 40,
           forecast_to_complete = Fin 3200, risk_score = Fin 76, latest_date = Some 10 \<rparr>"
  "compute_kpis fit_min_norm same_day_df =
     Inr \<lparr> kpi_budget = Fin 1000, latest_spend = Fin 800, pct_execution = Fin (4 / 5),
           variance_pct = Fin (- (1 / 5)), burn_rate = Fin 80, days_elapsed = 10, days_total = 40,
           forecast_to_complete = Fin 1500, risk_score = Fin 8, latest_date = Some 10 \<rparr>"
  by (simp_all add: same_day_df_def kpi_eval fit_raises_def fit_min_norm_def)


subsection \<open>summary_table\<close>












text \<open>
  A frame without rows: \<^verbatim>\<open>summary_table\<close> raises \<^verbatim>\<open>KeyError\<close>.
\<close>

lemma summary_table_Nil: "summary_table dg [] = Inl KeyError"
  by (simp add: summary_table_def groupby_def bind_err_def)





end
